theory Spec2Isabelle
  imports Complex_Main "HOL-Library.Word"
begin

section \<open>Optical-flow velocity estimation: the tracker of optical\_flow\_velocity.cpp\<close>

text \<open>
  The development embeds the class \<open>OpticalFlowTracking\<close> (constructor,
  \<open>_set_delta_t_\<close>, \<open>_has_features\<close>, \<open>extractFeatures\<close>, \<open>calculateRealVel\<close>) and the
  velocity part of the S-function's \<open>mdlOutputs\<close>.

  Conventions of the embedding:
  \<^item> C++ \<open>float\<close> and \<open>double\<close> values are read as real numbers: rounding, overflow to
    infinity and NaN are not modelled, and \<open>std::atan\<close>, \<open>std::tan\<close> are \<open>arctan\<close>, \<open>tan\<close>.
    A division by zero, an infinity or NaN in C++, is HOL's \<open>x / 0 = 0\<close>.
  \<^item> C++ \<open>int\<close> members are integers without bound: the frame counter does not
    overflow.
  \<^item> Member names lose their leading underscore (\<open>_delta_t\<close> is \<open>delta_t\<close>);
    \<open>_method\<close> is \<open>method_id\<close>.
  \<^item> Every operation takes the tracker and returns the tracker after the call, next
    to its outcome; an outcome is \<open>Inl\<close> of an error when the call does not return
    normally.
  \<^item> The OpenCV routines the class calls are not part of the repository. They are
    the fields of a record \<open>opencv\<close> handed to every operation; each may raise
    \<open>cv::Exception\<close>.
\<close>

subsection \<open>Data\<close>

type_synonym uchar = "8 word"

datatype Point2f = Point2f (pt_x: real) (pt_y: real)

text \<open>A two-dimensional \<open>cv::Mat\<close>: its header fields and its element buffer.\<close>

record Mat =
  rows :: nat
  cols :: nat
  channels :: nat
  elems :: "uchar list"

text \<open>\<open>cv::Mat()\<close>: no rows, no columns, no buffer; its type is \<open>CV_8UC1\<close>.\<close>

definition Mat_default :: Mat where
  "Mat_default = \<lparr>rows = 0, cols = 0, channels = 1, elems = []\<rparr>"

text \<open>\<open>cv::Mat::empty()\<close>: no buffer, or no element.\<close>

definition Mat_empty :: "Mat \<Rightarrow> bool" where
  "Mat_empty m = (elems m = [] \<or> rows m * cols m = 0)"

text \<open>
  How a call can fail to return: a \<open>cv::Exception\<close> raised inside OpenCV (with its
  \<open>what()\<close> text), or a read past the end of a \<open>std::vector\<close> (undefined behaviour in
  C++, made an outcome here).
\<close>

datatype error = cv_Exception string | OutOfRange

text \<open>\<open>cv::TermCriteria\<close>: type, maximal count, epsilon.\<close>

type_synonym TermCriteria = "nat \<times> nat \<times> real"

text \<open>
  The OpenCV routines, with the arguments the class passes:
  \<open>cvtColor(src, dst, COLOR_BGR2GRAY)\<close>;
  \<open>goodFeaturesToTrack(image, corners, maxCorners, qualityLevel, minDistance, noArray, blockSize)\<close>;
  \<open>calcOpticalFlowPyrLK(prevImg, nextImg, prevPts, nextPts, status, err, winSize, maxLevel, criteria)\<close>,
  which yields \<open>(nextPts, status, err)\<close>.
\<close>

record opencv =
  cvtColor_BGR2GRAY :: "Mat \<Rightarrow> error + Mat"
  goodFeaturesToTrack :: "Mat \<Rightarrow> nat \<Rightarrow> real \<Rightarrow> real \<Rightarrow> nat \<Rightarrow> error + Point2f list"
  calcOpticalFlowPyrLK ::
    "Mat \<Rightarrow> Mat \<Rightarrow> Point2f list \<Rightarrow> nat \<times> nat \<Rightarrow> nat \<Rightarrow> TermCriteria
      \<Rightarrow> error + (Point2f list \<times> uchar list \<times> real list)"

text \<open>The private members of the class, in the order of the header.\<close>

record OpticalFlowTracking =
  method_id :: int
  delta_t :: real
  focal_length :: real
  cmos_width :: real
  cmos_height :: real
  fov_h :: real
  fov_v :: real
  img_width :: int
  img_height :: int
  debug_count :: int
  last_im :: Mat
  features :: "Point2f list"

text \<open>
  The member initialiser of \<open>_criteria\<close>:
  \<open>TermCriteria(COUNT + EPS, 8, 0.03)\<close>, with \<open>COUNT = 1\<close> and \<open>EPS = 2\<close>.
\<close>

definition criteria :: TermCriteria where
  "criteria = (1 + 2, 8, 3 / 100)"

subsection \<open>Operations\<close>

text \<open>The constructor: it stores its arguments and derives the two fields of view.\<close>

definition OpticalFlowTracking_ctor ::
  "int \<Rightarrow> real \<Rightarrow> real \<Rightarrow> real \<Rightarrow> real \<Rightarrow> OpticalFlowTracking" where
  "OpticalFlowTracking_ctor method0 delta_t0 camera_focal_length cmos_width0 cmos_height0 =
     \<lparr>method_id = method0,
      delta_t = delta_t0,
      focal_length = camera_focal_length,
      cmos_width = cmos_width0,
      cmos_height = cmos_height0,
      fov_h = 2 * arctan (cmos_width0 / (2 * camera_focal_length)),
      fov_v = 2 * arctan (cmos_height0 / (2 * camera_focal_length)),
      img_width = 0,
      img_height = 0,
      debug_count = 0,
      last_im = Mat_default,
      features = []\<rparr>"

definition set_delta_t :: "OpticalFlowTracking \<Rightarrow> real \<Rightarrow> OpticalFlowTracking" where
  "set_delta_t s delta_t0 = s\<lparr>delta_t := delta_t0\<rparr>"

definition has_features :: "OpticalFlowTracking \<Rightarrow> bool" where
  "has_features s = (features s \<noteq> [])"

text \<open>
  The grey conversion that opens both \<open>extractFeatures\<close> and the tracking branch of
  \<open>calculateRealVel\<close>: \<open>cvtColor\<close> for three channels, \<open>img.clone()\<close> otherwise.
\<close>

definition to_gray :: "opencv \<Rightarrow> Mat \<Rightarrow> error + Mat" where
  "to_gray cv img = (if channels img = 3 then cvtColor_BGR2GRAY cv img else Inr img)"

text \<open>
  \<open>extractFeatures\<close>. The feature vector is cleared before the detector runs, so a
  detector that raises leaves it empty; frame and dimensions are stored only behind
  the \<open>_has_features()\<close> guard.
\<close>

definition extractFeatures ::
  "opencv \<Rightarrow> OpticalFlowTracking \<Rightarrow> Mat \<Rightarrow> (error + unit) \<times> OpticalFlowTracking" where
  "extractFeatures cv s img =
     (case to_gray cv img of
        Inl e \<Rightarrow> (Inl e, s)
      | Inr gray \<Rightarrow>
          (let s1 = s\<lparr>features := []\<rparr> in
           case goodFeaturesToTrack cv gray 1000 (1 / 10) 8 2 of
             Inl e \<Rightarrow> (Inl e, s1)
           | Inr corners \<Rightarrow>
               (let s2 = s1\<lparr>features := corners\<rparr> in
                if \<not> has_features s2 then (Inr (), s2)
                else (Inr (),
                      s2\<lparr>last_im := gray,
                         img_width := int (cols gray),
                         img_height := int (rows gray)\<rparr>))))"

text \<open>
  The first loop of \<open>calculateRealVel\<close>, from index \<open>i\<close> on, with the three vectors it
  appends to. It runs over \<open>new_features\<close> and reads \<open>status[i]\<close> and, for a tracked
  point, \<open>_features[i]\<close>.
\<close>

function pixel_velocities ::
  "real \<Rightarrow> Point2f list \<Rightarrow> Point2f list \<Rightarrow> uchar list \<Rightarrow> nat
    \<Rightarrow> real list \<times> real list \<times> Point2f list
    \<Rightarrow> error + (real list \<times> real list \<times> Point2f list)" where
  "pixel_velocities dt old_pts new_features status i (vels_x, vels_y, old_features) =
     (if i < length new_features then
        (if i < length status then
           (if status ! i \<noteq> 0 then
              (if i < length old_pts then
                 (let dx = pt_x (new_features ! i) - pt_x (old_pts ! i);
                      dy = pt_y (new_features ! i) - pt_y (old_pts ! i)
                  in pixel_velocities dt old_pts new_features status (Suc i)
                       (vels_x @ [dy / dt], vels_y @ [- dx / dt],
                        old_features @ [old_pts ! i]))
               else Inl OutOfRange)
            else pixel_velocities dt old_pts new_features status (Suc i)
                   (vels_x, vels_y, old_features))
         else Inl OutOfRange)
      else Inr (vels_x, vels_y, old_features))"
  by pat_completeness auto
termination
  by (relation "measure (\<lambda>(dt, old_pts, new_features, status, i, acc). length new_features - i)")
     auto

text \<open>
  The second loop: pixel velocity to angular velocity to linear velocity, for every
  index of \<open>vels_x\<close>.
\<close>

definition real_velocities ::
  "OpticalFlowTracking \<Rightarrow> real \<Rightarrow> real list \<Rightarrow> real list \<Rightarrow> real list \<times> real list" where
  "real_velocities s height vels_x vels_y =
     (map (\<lambda>i. let angular_vel_x = vels_x ! i * fov_v s / real_of_int (img_height s)
               in height * tan (angular_vel_x * delta_t s) / delta_t s)
          [0..<length vels_x],
      map (\<lambda>i. let angular_vel_y = vels_y ! i * fov_h s / real_of_int (img_width s)
               in height * tan (angular_vel_y * delta_t s) / delta_t s)
          [0..<length vels_x])"

type_synonym velocity_result =
  "real list \<times> real list \<times> Point2f list \<times> Point2f list \<times> bool"

text \<open>
  \<open>calculateRealVel\<close>. In the tracking branch the order of the effects is the
  source's: the counter, the tracker, the first loop, the clearing of the features,
  the detector, the stored frame, the second loop.
\<close>

definition calculateRealVel ::
  "opencv \<Rightarrow> OpticalFlowTracking \<Rightarrow> Mat \<Rightarrow> real
    \<Rightarrow> (error + velocity_result) \<times> OpticalFlowTracking" where
  "calculateRealVel cv s img height =
     (if Mat_empty (last_im s) then
        (case extractFeatures cv s img of
           (Inl e, s') \<Rightarrow> (Inl e, s')
         | (Inr u, s') \<Rightarrow> (Inr ([], [], [], [], True), s'))
      else
        (case to_gray cv img of
           Inl e \<Rightarrow> (Inl e, s)
         | Inr current_gray \<Rightarrow>
             (let s1 = s\<lparr>debug_count := debug_count s + 1\<rparr> in
              case calcOpticalFlowPyrLK cv (last_im s1) current_gray (features s1)
                     (16, 16) 2 criteria of
                Inl e \<Rightarrow> (Inl e, s1)
              | Inr (new_features, status, err) \<Rightarrow>
                  (case pixel_velocities (delta_t s1) (features s1) new_features status 0
                          ([], [], []) of
                     Inl e \<Rightarrow> (Inl e, s1)
                   | Inr (vels_x, vels_y, old_features) \<Rightarrow>
                       (let s2 = s1\<lparr>features := []\<rparr> in
                        case goodFeaturesToTrack cv current_gray 1000 (1 / 10) 8 2 of
                          Inl e \<Rightarrow> (Inl e, s2)
                        | Inr corners \<Rightarrow>
                            (let s3 = s2\<lparr>features := corners, last_im := current_gray\<rparr>;
                                 (v_est_x, v_est_y) = real_velocities s3 height vels_x vels_y
                             in (Inr (v_est_x, v_est_y, new_features, old_features, True),
                                 s3)))))))"

text \<open>
  The velocity part of \<open>mdlOutputs\<close>: the time step is set, \<open>calculateRealVel\<close> runs at
  height \<open>1.0f\<close> inside \<open>try\<close>, and \<open>catch (const cv::Exception&)\<close> turns the exception
  into a warning and two cleared vectors. The outcome holds the warning (if any),
  \<open>vel_x\<close>, \<open>vel_y\<close> and \<open>valid_features\<close>. The null checks of the two work pointers, the
  reading of the ports into the image buffer, the timing and the layout of the output
  buffer are left out; the image is the converted buffer, the time step the value of
  the second input port and \<open>num_cols\<close> the width of the first output port.
\<close>

definition mdlOutputs ::
  "opencv \<Rightarrow> OpticalFlowTracking \<Rightarrow> Mat \<Rightarrow> real \<Rightarrow> nat
    \<Rightarrow> (error + (string option \<times> real list \<times> real list \<times> nat)) \<times> OpticalFlowTracking" where
  "mdlOutputs cv tracker img delta_t_in num_cols =
     (case calculateRealVel cv (set_delta_t tracker delta_t_in) img 1 of
        (Inr (v_est_x, v_est_y, new_features, old_features, ok), tracker') \<Rightarrow>
          (Inr (None, v_est_x, v_est_y, min (length v_est_x) num_cols), tracker')
      | (Inl (cv_Exception what), tracker') \<Rightarrow>
          (Inr (Some what, [], [], min 0 num_cols), tracker')
      | (Inl OutOfRange, tracker') \<Rightarrow> (Inl OutOfRange, tracker'))"

subsection \<open>Reachable tracker states\<close>

text \<open>
  The states a caller can bring a tracker into through the public interface:
  construction, then any sequence of \<open>_set_delta_t_\<close>, \<open>extractFeatures\<close> and
  \<open>calculateRealVel\<close>, whether a call returns or raises.
\<close>

inductive reachable :: "opencv \<Rightarrow> OpticalFlowTracking \<Rightarrow> bool" for cv :: opencv where
  by_ctor: "reachable cv (OpticalFlowTracking_ctor m dt f w h)"
| by_set_delta_t: "reachable cv s \<Longrightarrow> reachable cv (set_delta_t s dt)"
| by_extractFeatures: "reachable cv s \<Longrightarrow> reachable cv (snd (extractFeatures cv s img))"
| by_calculateRealVel: "reachable cv s \<Longrightarrow> reachable cv (snd (calculateRealVel cv s img height))"

subsection \<open>What the class relies on from OpenCV\<close>

text \<open>
  Four facts about OpenCV, as predicates on the library handed in: the detector finds
  no corner in an empty image; it returns at most \<open>maxCorners\<close> corners; the tracker
  returns one new point and one status byte per input point; the tracker returns
  only for two frames of the same size, and raises otherwise.
\<close>

definition no_corner_in_empty :: "opencv \<Rightarrow> bool" where
  "no_corner_in_empty cv =
     (\<forall>img n q d b corners.
        goodFeaturesToTrack cv img n q d b = Inr corners \<longrightarrow> Mat_empty img \<longrightarrow> corners = [])"

definition at_most_maxCorners :: "opencv \<Rightarrow> bool" where
  "at_most_maxCorners cv =
     (\<forall>img n q d b corners.
        goodFeaturesToTrack cv img n q d b = Inr corners \<longrightarrow> length corners \<le> n)"

definition tracks_every_point :: "opencv \<Rightarrow> bool" where
  "tracks_every_point cv =
     (\<forall>prev nxt pts win lvl crit new_features status err.
        calcOpticalFlowPyrLK cv prev nxt pts win lvl crit = Inr (new_features, status, err) \<longrightarrow>
        length new_features = length pts \<and> length status = length pts)"

definition tracks_same_size :: "opencv \<Rightarrow> bool" where
  "tracks_same_size cv =
     (\<forall>prev nxt pts win lvl crit tracked.
        calcOpticalFlowPyrLK cv prev nxt pts win lvl crit = Inr tracked \<longrightarrow>
        rows nxt = rows prev \<and> cols nxt = cols prev)"

subsection \<open>Surviving features\<close>

text \<open>
  The indices from \<open>i\<close> up to \<open>n\<close> whose status byte is set, in increasing order: the
  features that survive a tracking step.
\<close>

definition survivors :: "uchar list \<Rightarrow> nat \<Rightarrow> nat \<Rightarrow> nat list" where
  "survivors status i n = filter (\<lambda>k. status ! k \<noteq> 0) [i..<n]"

subsection \<open>A small library and a few frames, for running the operations\<close>

text \<open>
  A stand-in for OpenCV that is simple enough to evaluate: every non-zero pixel is a
  corner, at (column, row); the tracker moves every point one pixel down, reports a
  point as lost when it leaves the frame, and raises when the two frames differ in
  size (as OpenCV does); the grey conversion keeps the buffer.
\<close>

definition toy_corners :: "Mat \<Rightarrow> Point2f list" where
  "toy_corners img =
     map (\<lambda>k. Point2f (real (k mod cols img)) (real (k div cols img)))
       (filter (\<lambda>k. elems img ! k \<noteq> 0) [0..<length (elems img)])"

definition toy_cv :: opencv where
  "toy_cv =
     \<lparr>cvtColor_BGR2GRAY = (\<lambda>img. Inr (img\<lparr>channels := 1\<rparr>)),
      goodFeaturesToTrack =
        (\<lambda>img n q d b. Inr (if Mat_empty img then [] else take n (toy_corners img))),
      calcOpticalFlowPyrLK =
        (\<lambda>prev nxt pts win lvl crit.
           if rows prev = rows nxt \<and> cols prev = cols nxt
           then Inr (map (\<lambda>p. Point2f (pt_x p) (pt_y p + 1)) pts,
                     map (\<lambda>p. if pt_y p + 1 < real (rows nxt) then 1 else 0) pts,
                     map (\<lambda>p. 0) pts)
           else Inl (cv_Exception ''prevImg and nextImg differ in size''))\<rparr>"


text \<open>Two frames of the same size: two bright pixels on the diagonal; a blank frame.\<close>

definition frame_A :: Mat where
  "frame_A = \<lparr>rows = 2, cols = 2, channels = 1, elems = [255, 0, 0, 255]\<rparr>"

definition frame_blank :: Mat where
  "frame_blank = \<lparr>rows = 2, cols = 2, channels = 1, elems = [0, 0, 0, 0]\<rparr>"

text \<open>
  The tracker of \<open>mdlStart\<close> (method 100, time step 1) for the camera of the
  specification's scenario: focal length 0.004, sensor 0.0064 by 0.0048.
\<close>

definition toy_tracker :: OpticalFlowTracking where
  "toy_tracker = OpticalFlowTracking_ctor 100 1 (4 / 1000) (64 / 10000) (48 / 10000)"

text \<open>The tracker after a first \<open>calculateRealVel\<close> on \<open>frame_A\<close>.\<close>

definition toy_seeded :: OpticalFlowTracking where
  "toy_seeded = snd (calculateRealVel toy_cv toy_tracker frame_A 1)"


subsection \<open>Auxiliary facts about the two loops and the two branches\<close>

declare pixel_velocities.simps [simp del]

lemma survivors_step:
  "i < n \<Longrightarrow> survivors status i n =
     (if status ! i \<noteq> 0 then i # survivors status (Suc i) n else survivors status (Suc i) n)"
  by (simp add: survivors_def upt_conv_Cons)

lemma survivors_done: "\<not> i < n \<Longrightarrow> survivors status i n = []"
  by (simp add: survivors_def)

lemma pixel_velocities_Inr:
  "pixel_velocities dt old_pts new_features status i acc = Inr r \<Longrightarrow>
   r = (fst acc @ map (\<lambda>k. (pt_y (new_features ! k) - pt_y (old_pts ! k)) / dt)
                    (survivors status i (length new_features)),
        fst (snd acc) @ map (\<lambda>k. - (pt_x (new_features ! k) - pt_x (old_pts ! k)) / dt)
                    (survivors status i (length new_features)),
        snd (snd acc) @ map (\<lambda>k. old_pts ! k) (survivors status i (length new_features)))"
proof (induction dt old_pts new_features status i acc arbitrary: r rule: pixel_velocities.induct)
  case (1 dt old_pts new_features status i vels_x vels_y old_features)
  note unfold = pixel_velocities.simps [of dt old_pts new_features status i vels_x vels_y old_features]
  show ?case
  proof (cases "i < length new_features")
    case False
    with "1.prems" show ?thesis
      by (simp add: survivors_done unfold)
  next
    case True
    note lt = True
    show ?thesis
    proof (cases "status ! i \<noteq> 0")
      case True
      with lt "1.prems" have a: "i < length status" "i < length old_pts"
        by (auto simp: unfold split: if_splits)
      have rec: "pixel_velocities dt old_pts new_features status (Suc i)
                   (vels_x @ [(pt_y (new_features ! i) - pt_y (old_pts ! i)) / dt],
                    vels_y @ [- (pt_x (new_features ! i) - pt_x (old_pts ! i)) / dt],
                    old_features @ [old_pts ! i]) = Inr r"
        using "1.prems" unfolding unfold Let_def using lt a True by simp
      from "1.IH"(1)[OF lt a(1) True a(2) refl refl rec] lt True
      show ?thesis
        by (simp add: survivors_step)
    next
      case False
      with lt "1.prems" have a: "i < length status"
        by (auto simp: unfold split: if_splits)
      have rec: "pixel_velocities dt old_pts new_features status (Suc i)
                   (vels_x, vels_y, old_features) = Inr r"
        using "1.prems" unfolding unfold using lt a False by simp
      from "1.IH"(2)[OF lt a False rec] lt False
      show ?thesis
        by (simp add: survivors_step)
    qed
  qed
qed

lemma pixel_velocities_total:
  "length new_features \<le> length status \<Longrightarrow> length new_features \<le> length old_pts \<Longrightarrow>
   \<exists>r. pixel_velocities dt old_pts new_features status i acc = Inr r"
proof (induction dt old_pts new_features status i acc rule: pixel_velocities.induct)
  case (1 dt old_pts new_features status i vels_x vels_y old_features)
  note unfold = pixel_velocities.simps [of dt old_pts new_features status i vels_x vels_y old_features]
  show ?case
  proof (cases "i < length new_features")
    case False
    then show ?thesis by (simp add: unfold)
  next
    case True
    with "1.prems" have a: "i < length status" "i < length old_pts" by simp_all
    show ?thesis
    proof (cases "status ! i \<noteq> 0")
      case nz: True
      from "1.IH"(1)[OF True a(1) nz a(2) refl refl "1.prems"]
      show ?thesis unfolding unfold Let_def using True a nz by simp
    next
      case z: False
      from "1.IH"(2)[OF True a(1) z "1.prems"]
      show ?thesis unfolding unfold using True a z by simp
    qed
  qed
qed


lemma pixel_velocities_lengths:
  assumes "pixel_velocities dt old_pts new_features status 0 ([], [], []) =
             Inr (vels_x, vels_y, old_features)"
  shows "length vels_x = length (survivors status 0 (length new_features))"
    and "length vels_y = length vels_x"
    and "length old_features = length vels_x"
  using pixel_velocities_Inr [OF assms] by simp_all

lemma survivors_length_le: "length (survivors status i n) \<le> n - i"
proof -
  have "length (survivors status i n) \<le> length [i..<n]"
    unfolding survivors_def by (rule length_filter_le)
  then show ?thesis by simp
qed

lemma real_velocities_fields:
  "fov_v s' = fov_v s \<Longrightarrow> fov_h s' = fov_h s \<Longrightarrow> img_width s' = img_width s \<Longrightarrow>
   img_height s' = img_height s \<Longrightarrow> delta_t s' = delta_t s \<Longrightarrow>
   real_velocities s' height vels_x vels_y = real_velocities s height vels_x vels_y"
  by (simp add: real_velocities_def)

lemma calculateRealVel_unseeded:
  "Mat_empty (last_im s) \<Longrightarrow>
   calculateRealVel cv s img height =
     (case extractFeatures cv s img of
        (Inl e, s') \<Rightarrow> (Inl e, s')
      | (Inr u, s') \<Rightarrow> (Inr ([], [], [], [], True), s'))"
  by (simp add: calculateRealVel_def)

lemma calculateRealVel_tracking:
  assumes "\<not> Mat_empty (last_im s)"
    and "to_gray cv img = Inr current_gray"
    and "calcOpticalFlowPyrLK cv (last_im s) current_gray (features s) (16, 16) 2 criteria =
           Inr (new_features, status, err)"
    and "pixel_velocities (delta_t s) (features s) new_features status 0 ([], [], []) =
           Inr (vels_x, vels_y, old_features)"
    and "goodFeaturesToTrack cv current_gray 1000 (1 / 10) 8 2 = Inr corners"
  shows "calculateRealVel cv s img height =
           (Inr (fst (real_velocities s height vels_x vels_y),
                 snd (real_velocities s height vels_x vels_y),
                 new_features, old_features, True),
            s\<lparr>debug_count := debug_count s + 1, features := corners, last_im := current_gray\<rparr>)"
proof -
  have "real_velocities
          (s\<lparr>debug_count := debug_count s + 1, features := corners, last_im := current_gray\<rparr>)
          height vels_x vels_y = real_velocities s height vels_x vels_y"
    by (rule real_velocities_fields) simp_all
  with assms show ?thesis
    by (simp add: calculateRealVel_def Let_def split: prod.splits)
qed

lemma calculateRealVel_tracking_returns:
  assumes "\<not> Mat_empty (last_im s)"
    and "fst (calculateRealVel cv s img height) = Inr r"
  obtains current_gray new_features status err vels_x vels_y old_features corners where
    "to_gray cv img = Inr current_gray"
    "calcOpticalFlowPyrLK cv (last_im s) current_gray (features s) (16, 16) 2 criteria =
       Inr (new_features, status, err)"
    "pixel_velocities (delta_t s) (features s) new_features status 0 ([], [], []) =
       Inr (vels_x, vels_y, old_features)"
    "goodFeaturesToTrack cv current_gray 1000 (1 / 10) 8 2 = Inr corners"
proof -
  from assms(1,2) obtain current_gray where g: "to_gray cv img = Inr current_gray"
    by (cases "to_gray cv img") (simp_all add: calculateRealVel_def)
  from assms(1,2) g obtain new_features status err where
    lk: "calcOpticalFlowPyrLK cv (last_im s) current_gray (features s) (16, 16) 2 criteria =
           Inr (new_features, status, err)"
    by (cases "calcOpticalFlowPyrLK cv (last_im s) current_gray (features s) (16, 16) 2 criteria")
       (auto simp add: calculateRealVel_def Let_def)
  from assms(1,2) g lk obtain vels_x vels_y old_features where
    pv: "pixel_velocities (delta_t s) (features s) new_features status 0 ([], [], []) =
           Inr (vels_x, vels_y, old_features)"
    by (cases "pixel_velocities (delta_t s) (features s) new_features status 0 ([], [], [])")
       (auto simp add: calculateRealVel_def Let_def)
  from assms(1,2) g lk pv obtain corners where
    "goodFeaturesToTrack cv current_gray 1000 (1 / 10) 8 2 = Inr corners"
    by (cases "goodFeaturesToTrack cv current_gray 1000 (1 / 10) 8 2")
       (auto simp add: calculateRealVel_def Let_def)
  with g lk pv that show thesis by blast
qed

lemma real_velocities_nth:
  "j < length vels_x \<Longrightarrow>
   fst (real_velocities s height vels_x vels_y) ! j =
     height * tan (vels_x ! j * fov_v s / real_of_int (img_height s) * delta_t s) / delta_t s \<and>
   snd (real_velocities s height vels_x vels_y) ! j =
     height * tan (vels_y ! j * fov_h s / real_of_int (img_width s) * delta_t s) / delta_t s"
  by (simp add: real_velocities_def Let_def)

lemma real_velocities_length:
  "length (fst (real_velocities s height vels_x vels_y)) = length vels_x \<and>
   length (snd (real_velocities s height vels_x vels_y)) = length vels_x"
  by (simp add: real_velocities_def)

lemma real_velocities_scale:
  "real_velocities s (c * height) vels_x vels_y =
     (map (\<lambda>v. c * v) (fst (real_velocities s height vels_x vels_y)),
      map (\<lambda>v. c * v) (snd (real_velocities s height vels_x vels_y)))"
  by (simp add: real_velocities_def Let_def)

lemma calculateRealVel_unseeded_height:
  "Mat_empty (last_im s) \<Longrightarrow>
   calculateRealVel cv s img height' = calculateRealVel cv s img height"
  by (simp add: calculateRealVel_unseeded)

lemma calculateRealVel_unseeded_result:
  "Mat_empty (last_im s) \<Longrightarrow> fst (calculateRealVel cv s img height) = Inr r \<Longrightarrow>
   r = ([], [], [], [], True)"
  by (auto simp: calculateRealVel_unseeded split: prod.splits sum.splits)

lemma extractFeatures_returns:
  assumes "to_gray cv img = Inr gray"
    and "goodFeaturesToTrack cv gray 1000 (1 / 10) 8 2 = Inr corners"
  shows "extractFeatures cv s img =
           (Inr (),
            if corners \<noteq> []
            then s\<lparr>features := corners, last_im := gray,
                   img_width := int (cols gray), img_height := int (rows gray)\<rparr>
            else s\<lparr>features := []\<rparr>)"
  using assms by (simp add: extractFeatures_def Let_def has_features_def)

lemma extractFeatures_state:
  "snd (extractFeatures cv s img) = s \<or>
   snd (extractFeatures cv s img) = s\<lparr>features := []\<rparr> \<or>
   (\<exists>gray corners.
      goodFeaturesToTrack cv gray 1000 (1 / 10) 8 2 = Inr corners \<and> corners \<noteq> [] \<and>
      snd (extractFeatures cv s img) =
        s\<lparr>features := corners, last_im := gray,
           img_width := int (cols gray), img_height := int (rows gray)\<rparr>)"
proof (cases "to_gray cv img")
  case (Inl e)
  then show ?thesis by (simp add: extractFeatures_def)
next
  case (Inr gray)
  show ?thesis
  proof (cases "goodFeaturesToTrack cv gray 1000 (1 / 10) 8 2")
    case (Inl e)
    with Inr show ?thesis by (simp add: extractFeatures_def)
  next
    case det: (Inr corners)
    show ?thesis
      unfolding extractFeatures_returns [OF Inr det] using det by auto
  qed
qed

lemma calculateRealVel_unseeded_state:
  "Mat_empty (last_im s) \<Longrightarrow>
   snd (calculateRealVel cv s img height) = snd (extractFeatures cv s img)"
  by (simp add: calculateRealVel_unseeded split: prod.splits sum.splits)

lemma calculateRealVel_tracking_state:
  assumes "\<not> Mat_empty (last_im s)"
  shows "snd (calculateRealVel cv s img height) = s \<or>
         snd (calculateRealVel cv s img height) = s\<lparr>debug_count := debug_count s + 1\<rparr> \<or>
         snd (calculateRealVel cv s img height) =
           s\<lparr>debug_count := debug_count s + 1, features := []\<rparr> \<or>
         (\<exists>gray corners.
            goodFeaturesToTrack cv gray 1000 (1 / 10) 8 2 = Inr corners \<and>
            (\<exists>tracked. calcOpticalFlowPyrLK cv (last_im s) gray (features s) (16, 16) 2
                          criteria = Inr tracked) \<and>
            (\<exists>r. fst (calculateRealVel cv s img height) = Inr r) \<and>
            snd (calculateRealVel cv s img height) =
              s\<lparr>debug_count := debug_count s + 1, features := corners, last_im := gray\<rparr>)"
proof (cases "to_gray cv img")
  case (Inl e)
  with assms show ?thesis by (simp add: calculateRealVel_def)
next
  case g: (Inr current_gray)
  show ?thesis
  proof (cases "calcOpticalFlowPyrLK cv (last_im s) current_gray (features s) (16, 16) 2 criteria")
    case (Inl e)
    with assms g show ?thesis by (simp add: calculateRealVel_def)
  next
    case (Inr tracked)
    then obtain new_features status err where
      lk: "calcOpticalFlowPyrLK cv (last_im s) current_gray (features s) (16, 16) 2 criteria =
             Inr (new_features, status, err)"
      by (cases tracked) auto
    show ?thesis
    proof (cases "pixel_velocities (delta_t s) (features s) new_features status 0 ([], [], [])")
      case (Inl e)
      with assms g lk show ?thesis by (simp add: calculateRealVel_def)
    next
      case (Inr vels)
      then obtain vels_x vels_y old_features where
        pv: "pixel_velocities (delta_t s) (features s) new_features status 0 ([], [], []) =
               Inr (vels_x, vels_y, old_features)"
        by (cases vels) auto
      show ?thesis
      proof (cases "goodFeaturesToTrack cv current_gray 1000 (1 / 10) 8 2")
        case (Inl e)
        with assms g lk pv show ?thesis by (simp add: calculateRealVel_def)
      next
        case det: (Inr corners)
        note run = calculateRealVel_tracking [OF assms g lk pv det, of height]
        have "\<exists>gray corners.
            goodFeaturesToTrack cv gray 1000 (1 / 10) 8 2 = Inr corners \<and>
            (\<exists>tracked. calcOpticalFlowPyrLK cv (last_im s) gray (features s) (16, 16) 2
                          criteria = Inr tracked) \<and>
            (\<exists>r. fst (calculateRealVel cv s img height) = Inr r) \<and>
            snd (calculateRealVel cv s img height) =
              s\<lparr>debug_count := debug_count s + 1, features := corners, last_im := gray\<rparr>"
          by (intro exI [of _ current_gray] exI [of _ corners]) (auto simp: det lk run)
        then show ?thesis by blast
      qed
    qed
  qed
qed

lemma detected_in_nonempty:
  assumes "no_corner_in_empty cv"
    and "goodFeaturesToTrack cv gray n q d b = Inr corners"
    and "corners \<noteq> []"
  shows "\<not> Mat_empty gray" and "0 < rows gray" and "0 < cols gray"
proof -
  from assms show ne: "\<not> Mat_empty gray"
    unfolding no_corner_in_empty_def by blast
  then show "0 < rows gray" and "0 < cols gray"
    by (simp_all add: Mat_empty_def)
qed

lemma ctor_fields:
  "features (OpticalFlowTracking_ctor m dt f w h) = []"
  "Mat_empty (last_im (OpticalFlowTracking_ctor m dt f w h))"
  by (simp_all add: OpticalFlowTracking_ctor_def Mat_default_def Mat_empty_def)

lemma features_within_cap:
  assumes "reachable cv s" and "at_most_maxCorners cv"
  shows "length (features s) \<le> 1000"
  using assms(1)
proof (induction rule: reachable.induct)
  case (by_ctor m dt f w h)
  show ?case by (simp add: ctor_fields)
next
  case (by_set_delta_t s dt)
  then show ?case by (simp add: set_delta_t_def)
next
  case (by_extractFeatures s img)
  from assms(2) have cap: "\<And>gray corners.
      goodFeaturesToTrack cv gray 1000 (1 / 10) 8 2 = Inr corners \<Longrightarrow> length corners \<le> 1000"
    unfolding at_most_maxCorners_def by blast
  from extractFeatures_state [of cv s img] by_extractFeatures.IH cap
  show ?case by auto
next
  case (by_calculateRealVel s img height)
  from assms(2) have cap: "\<And>gray corners.
      goodFeaturesToTrack cv gray 1000 (1 / 10) 8 2 = Inr corners \<Longrightarrow> length corners \<le> 1000"
    unfolding at_most_maxCorners_def by blast
  show ?case
  proof (cases "Mat_empty (last_im s)")
    case True
    from extractFeatures_state [of cv s img] by_calculateRealVel.IH cap
    show ?thesis unfolding calculateRealVel_unseeded_state [OF True] by auto
  next
    case False
    from calculateRealVel_tracking_state [OF False, of cv img height]
      by_calculateRealVel.IH cap
    show ?thesis by auto
  qed
qed

lemma calculateRealVel_completes:
  assumes "to_gray cv img = Inr gray"
    and "goodFeaturesToTrack cv gray 1000 (1 / 10) 8 2 = Inr corners"
    and "tracks_every_point cv"
    and "Mat_empty (last_im s) \<or>
         (\<exists>tracked. calcOpticalFlowPyrLK cv (last_im s) gray (features s) (16, 16) 2 criteria =
            Inr tracked)"
  shows "\<exists>v_est_x v_est_y new_pts old_pts.
           fst (calculateRealVel cv s img height) = Inr (v_est_x, v_est_y, new_pts, old_pts, True)"
proof (cases "Mat_empty (last_im s)")
  case True
  then show ?thesis
    by (simp add: calculateRealVel_unseeded extractFeatures_returns [OF assms(1,2)])
next
  case False
  with assms(4) obtain new_features status err where
    lk: "calcOpticalFlowPyrLK cv (last_im s) gray (features s) (16, 16) 2 criteria =
           Inr (new_features, status, err)"
    by (metis prod_cases3)
  from assms(3) lk have len: "length new_features \<le> length status"
    "length new_features \<le> length (features s)"
    unfolding tracks_every_point_def by fastforce+
  from pixel_velocities_total [OF len] obtain vels_x vels_y old_features where
    pv: "pixel_velocities (delta_t s) (features s) new_features status 0 ([], [], []) =
           Inr (vels_x, vels_y, old_features)"
    by (metis prod_cases3)
  show ?thesis
    unfolding calculateRealVel_tracking [OF False assms(1) lk pv assms(2)] by simp
qed



lemma mdlOutputs_returns:
  "fst (calculateRealVel cv (set_delta_t tracker dt) img 1) =
     Inr (v_est_x, v_est_y, new_pts, old_pts, ok) \<Longrightarrow>
   fst (mdlOutputs cv tracker img dt num_cols) =
     Inr (None, v_est_x, v_est_y, min (length v_est_x) num_cols)"
  by (cases "calculateRealVel cv (set_delta_t tracker dt) img 1") (simp add: mdlOutputs_def)


lemma returned_lengths:
  assumes "reachable cv s" and "at_most_maxCorners cv" and "tracks_every_point cv"
    and "\<not> Mat_empty (last_im s)"
    and "fst (calculateRealVel cv s img height) = Inr (v_est_x, v_est_y, new_pts, old_pts, ok)"
  shows "length v_est_y = length v_est_x" and "length old_pts = length v_est_x"
    and "length v_est_x \<le> length new_pts" and "length new_pts = length (features s)"
    and "length (features s) \<le> 1000"
proof -
  from assms(4,5) obtain g nf st er vx vy olds corners where
    g: "to_gray cv img = Inr g"
    and lk: "calcOpticalFlowPyrLK cv (last_im s) g (features s) (16, 16) 2 criteria =
               Inr (nf, st, er)"
    and pv: "pixel_velocities (delta_t s) (features s) nf st 0 ([], [], []) = Inr (vx, vy, olds)"
    and det: "goodFeaturesToTrack cv g 1000 (1 / 10) 8 2 = Inr corners"
    by (rule calculateRealVel_tracking_returns)
  from calculateRealVel_tracking [OF assms(4) g lk pv det, of height] assms(5)
  have res: "v_est_x = fst (real_velocities s height vx vy)"
    "v_est_y = snd (real_velocities s height vx vy)" "new_pts = nf" "old_pts = olds"
    by simp_all
  note len = pixel_velocities_lengths [OF pv]
  from res len real_velocities_length [of s height vx vy]
  show "length v_est_y = length v_est_x" and "length old_pts = length v_est_x"
    by simp_all
  from survivors_length_le [of st 0 "length nf"] len(1) res real_velocities_length [of s height vx vy]
  show "length v_est_x \<le> length new_pts" by simp
  from assms(3) lk res show "length new_pts = length (features s)"
    unfolding tracks_every_point_def by fastforce
  from features_within_cap [OF assms(1,2)] show "length (features s) \<le> 1000" .
qed

lemma features_detected_in_stored_frame:
  assumes "reachable cv s"
  shows "features s \<noteq> [] \<longrightarrow>
         goodFeaturesToTrack cv (last_im s) 1000 (1 / 10) 8 2 = Inr (features s)"
  using assms
proof (induction rule: reachable.induct)
  case (by_ctor m dt f w h)
  show ?case by (simp add: ctor_fields)
next
  case (by_set_delta_t s dt)
  then show ?case by (simp add: set_delta_t_def)
next
  case (by_extractFeatures s img)
  from extractFeatures_state [of cv s img] by_extractFeatures.IH
  show ?case by auto
next
  case (by_calculateRealVel s img height)
  show ?case
  proof (cases "Mat_empty (last_im s)")
    case True
    from extractFeatures_state [of cv s img] by_calculateRealVel.IH
    show ?thesis unfolding calculateRealVel_unseeded_state [OF True] by auto
  next
    case False
    from calculateRealVel_tracking_state [OF False, of cv img height]
      by_calculateRealVel.IH
    show ?thesis by auto
  qed
qed

lemma dims_of_stored_frame:
  assumes "reachable cv s" and "tracks_same_size cv"
  shows "\<not> Mat_empty (last_im s) \<longrightarrow>
         img_width s = int (cols (last_im s)) \<and> img_height s = int (rows (last_im s))"
  using assms(1)
proof (induction rule: reachable.induct)
  case (by_ctor m dt f w h)
  show ?case by (simp add: ctor_fields)
next
  case (by_set_delta_t s dt)
  then show ?case by (simp add: set_delta_t_def)
next
  case (by_extractFeatures s img)
  from extractFeatures_state [of cv s img] by_extractFeatures.IH
  show ?case by auto
next
  case (by_calculateRealVel s img height)
  show ?case
  proof (cases "Mat_empty (last_im s)")
    case True
    from extractFeatures_state [of cv s img] by_calculateRealVel.IH
    show ?thesis unfolding calculateRealVel_unseeded_state [OF True] by auto
  next
    case False
    from assms(2) have same: "\<And>gray tracked.
        calcOpticalFlowPyrLK cv (last_im s) gray (features s) (16, 16) 2 criteria = Inr tracked
        \<Longrightarrow> rows gray = rows (last_im s) \<and> cols gray = cols (last_im s)"
      unfolding tracks_same_size_def by blast
    from calculateRealVel_tracking_state [OF False, of cv img height]
      by_calculateRealVel.IH False same
    show ?thesis by auto
  qed
qed








subsection \<open>Running the small library\<close>

lemma toy_corners_A: "toy_corners frame_A = [Point2f 0 0, Point2f 1 1]"
  by (simp add: toy_corners_def frame_A_def)

lemma toy_corners_blank: "toy_corners frame_blank = []"
  by (simp add: toy_corners_def frame_blank_def)

lemma toy_detect_A:
  "goodFeaturesToTrack toy_cv frame_A 1000 (1 / 10) 8 2 = Inr [Point2f 0 0, Point2f 1 1]"
  by (simp add: toy_cv_def toy_corners_A) (simp add: frame_A_def Mat_empty_def)

lemma toy_detect_blank:
  "goodFeaturesToTrack toy_cv frame_blank 1000 (1 / 10) 8 2 = Inr []"
  by (simp add: toy_cv_def toy_corners_blank)

lemma toy_gray: "channels img = 1 \<Longrightarrow> to_gray toy_cv img = Inr img"
  by (simp add: to_gray_def)

lemma toy_gray_A: "to_gray toy_cv frame_A = Inr frame_A"
  by (simp add: to_gray_def frame_A_def)

lemma toy_seeded_eq:
  "toy_seeded = toy_tracker\<lparr>features := [Point2f 0 0, Point2f 1 1], last_im := frame_A,
                   img_width := 2, img_height := 2\<rparr>"
  by (simp add: toy_seeded_def calculateRealVel_def toy_tracker_def OpticalFlowTracking_ctor_def
        Mat_default_def Mat_empty_def extractFeatures_def toy_gray_A toy_detect_A has_features_def)
     (simp add: frame_A_def)

lemma toy_seeded_fields:
  "features toy_seeded = [Point2f 0 0, Point2f 1 1]" "last_im toy_seeded = frame_A"
  "img_width toy_seeded = 2" "img_height toy_seeded = 2" "delta_t toy_seeded = 1"
  "fov_v toy_seeded = 2 * arctan (3 / 5)" "fov_h toy_seeded = 2 * arctan (4 / 5)"
  "debug_count toy_seeded = 0"
  by (simp_all add: toy_seeded_eq toy_tracker_def OpticalFlowTracking_ctor_def)

lemma frame_A_not_empty: "\<not> Mat_empty frame_A"
  by (simp add: frame_A_def Mat_empty_def)

lemma toy_track_A:
  "calcOpticalFlowPyrLK toy_cv frame_A frame_A [Point2f 0 0, Point2f 1 1] (16, 16) 2 criteria =
     Inr ([Point2f 0 1, Point2f 1 2], [1, 0], [0, 0])"
  by (simp add: toy_cv_def frame_A_def)

lemma toy_pixel_velocities:
  "pixel_velocities 1 [Point2f 0 0, Point2f 1 1] [Point2f 0 1, Point2f 1 2] [1, 0] 0 ([], [], []) =
     Inr ([1], [0], [Point2f 0 0])"
  by (simp add: pixel_velocities.simps)

lemma toy_second_call:
  "calculateRealVel toy_cv toy_seeded frame_A height =
     (Inr ([height * (3 / 5)], [0], [Point2f 0 1, Point2f 1 2], [Point2f 0 0], True),
      toy_seeded\<lparr>debug_count := 1\<rparr>)"
proof -
  have a: "\<not> Mat_empty (last_im toy_seeded)"
    by (simp add: toy_seeded_fields frame_A_not_empty)
  have b: "calcOpticalFlowPyrLK toy_cv (last_im toy_seeded) frame_A (features toy_seeded)
             (16, 16) 2 criteria = Inr ([Point2f 0 1, Point2f 1 2], [1, 0], [0, 0])"
    by (simp add: toy_seeded_fields toy_track_A)
  have c: "pixel_velocities (delta_t toy_seeded) (features toy_seeded)
             [Point2f 0 1, Point2f 1 2] [1, 0] 0 ([], [], []) = Inr ([1], [0], [Point2f 0 0])"
    by (simp add: toy_seeded_fields toy_pixel_velocities)
  show ?thesis
    unfolding calculateRealVel_tracking [OF a toy_gray_A b c toy_detect_A]
    by (simp add: real_velocities_def toy_seeded_fields tan_arctan)
qed

lemma toy_tracks_every_point: "tracks_every_point toy_cv"
  by (auto simp: tracks_every_point_def toy_cv_def split: if_splits)

lemma toy_no_corner_in_empty: "no_corner_in_empty toy_cv"
  by (auto simp: no_corner_in_empty_def toy_cv_def)



lemma toy_gray_blank: "to_gray toy_cv frame_blank = Inr frame_blank"
  by (simp add: to_gray_def frame_blank_def)

lemma toy_tracker_reachable: "reachable toy_cv toy_tracker"
  unfolding toy_tracker_def by (rule reachable.by_ctor)

lemma toy_seeded_reachable: "reachable toy_cv toy_seeded"
  unfolding toy_seeded_def by (rule reachable.by_calculateRealVel [OF toy_tracker_reachable])

lemma toy_seeded_tracking: "\<not> Mat_empty (last_im toy_seeded)"
  by (simp add: toy_seeded_fields frame_A_not_empty)

lemma toy_extract_blank:
  "extractFeatures toy_cv toy_seeded frame_blank = (Inr (), toy_seeded\<lparr>features := []\<rparr>)"
  by (simp add: extractFeatures_returns [OF toy_gray_blank toy_detect_blank])

lemma toy_track_blank:
  "calcOpticalFlowPyrLK toy_cv (last_im toy_seeded) frame_blank (features toy_seeded) (16, 16) 2
     criteria = Inr ([Point2f 0 1, Point2f 1 2], [1, 0], [0, 0])"
  by (simp add: toy_seeded_fields toy_cv_def frame_A_def frame_blank_def)

lemma toy_pixel_velocities_seeded:
  "pixel_velocities (delta_t toy_seeded) (features toy_seeded)
     [Point2f 0 1, Point2f 1 2] [1, 0] 0 ([], [], []) = Inr ([1], [0], [Point2f 0 0])"
  by (simp add: toy_seeded_fields toy_pixel_velocities)

lemma toy_call_blank:
  "calculateRealVel toy_cv toy_seeded frame_blank 1 =
     (Inr ([3 / 5], [0], [Point2f 0 1, Point2f 1 2], [Point2f 0 0], True),
      toy_seeded\<lparr>debug_count := 1, features := [], last_im := frame_blank\<rparr>)"
  unfolding calculateRealVel_tracking [OF toy_seeded_tracking toy_gray_blank toy_track_blank
      toy_pixel_velocities_seeded toy_detect_blank]
  by (simp add: real_velocities_def toy_seeded_fields tan_arctan)

lemma toy_first_call:
  "calculateRealVel toy_cv (OpticalFlowTracking_ctor m dt f w h) frame_A height =
     (Inr ([], [], [], [], True),
      (OpticalFlowTracking_ctor m dt f w h)
        \<lparr>features := [Point2f 0 0, Point2f 1 1], last_im := frame_A,
         img_width := 2, img_height := 2\<rparr>)"
  by (simp add: calculateRealVel_unseeded ctor_fields
        extractFeatures_returns [OF toy_gray_A toy_detect_A])
     (simp add: frame_A_def)








lemma toy_tracks_same_size: "tracks_same_size toy_cv"
  by (auto simp: tracks_same_size_def toy_cv_def split: if_splits)








section \<open>The claims of the specification\<close>

subsection \<open>C1: from pixel velocity to real velocity\<close>

text \<open>
  Claim C1. In the tracking branch, every velocity that \<open>calculateRealVel\<close> returns is
  \<open>height * tan (angular_velocity * frame_interval) / frame_interval\<close>, where the angular
  velocity is the pixel velocity times the field of view of the axis, divided by the
  stored frame dimension: vertical field of view and frame height for the forward
  (x) component, horizontal field of view and frame width for the lateral (y)
  component. The pixel velocities are those of the first loop.
\<close>

theorem C1_real_velocity_formula:
  assumes "\<not> Mat_empty (last_im s)"
    and "to_gray cv img = Inr current_gray"
    and "calcOpticalFlowPyrLK cv (last_im s) current_gray (features s) (16, 16) 2 criteria =
           Inr (new_features, status, err)"
    and "pixel_velocities (delta_t s) (features s) new_features status 0 ([], [], []) =
           Inr (vels_x, vels_y, old_features)"
    and "fst (calculateRealVel cv s img height) = Inr (v_est_x, v_est_y, new_pts, old_pts, ok)"
  shows "length v_est_x = length vels_x \<and> length v_est_y = length vels_x \<and>
         (\<forall>j<length vels_x.
            v_est_x ! j =
              height * tan (vels_x ! j * fov_v s / real_of_int (img_height s) * delta_t s)
                / delta_t s \<and>
            v_est_y ! j =
              height * tan (vels_y ! j * fov_h s / real_of_int (img_width s) * delta_t s)
                / delta_t s)"
proof -
  from assms(1,5) obtain g nf st er vx vy olds corners where
    g: "to_gray cv img = Inr g"
    and lk: "calcOpticalFlowPyrLK cv (last_im s) g (features s) (16, 16) 2 criteria =
               Inr (nf, st, er)"
    and pv: "pixel_velocities (delta_t s) (features s) nf st 0 ([], [], []) = Inr (vx, vy, olds)"
    and det: "goodFeaturesToTrack cv g 1000 (1 / 10) 8 2 = Inr corners"
    by (rule calculateRealVel_tracking_returns)
  from g assms(2) have g_eq: "g = current_gray" by simp
  from lk assms(3) g_eq have lk_eq: "nf = new_features" "st = status" by simp_all
  from pv assms(4) lk_eq have pv_eq: "vx = vels_x" "vy = vels_y" by simp_all
  from calculateRealVel_tracking [OF assms(1) g lk pv det, of height] assms(5) pv_eq
  have res: "v_est_x = fst (real_velocities s height vels_x vels_y)"
            "v_est_y = snd (real_velocities s height vels_x vels_y)"
    by simp_all
  show ?thesis
    unfolding res using real_velocities_length real_velocities_nth by blast
qed

text \<open>
  The theorem at the second call on \<open>frame_A\<close>, with height 2.
\<close>

theorem C1_witness:
  "\<not> Mat_empty (last_im toy_seeded) \<and>
   to_gray toy_cv frame_A = Inr frame_A \<and>
   calcOpticalFlowPyrLK toy_cv (last_im toy_seeded) frame_A (features toy_seeded) (16, 16) 2
       criteria = Inr ([Point2f 0 1, Point2f 1 2], [1, 0], [0, 0]) \<and>
   pixel_velocities (delta_t toy_seeded) (features toy_seeded) [Point2f 0 1, Point2f 1 2]
       [1, 0] 0 ([], [], []) = Inr ([1], [0], [Point2f 0 0]) \<and>
   fst (calculateRealVel toy_cv toy_seeded frame_A 2) =
     Inr ([6 / 5], [0], [Point2f 0 1, Point2f 1 2], [Point2f 0 0], True) \<and>
   [6 / 5] ! 0 =
     2 * tan ([1] ! 0 * fov_v toy_seeded / real_of_int (img_height toy_seeded)
               * delta_t toy_seeded) / delta_t toy_seeded \<and>
   [0] ! 0 =
     2 * tan ([0] ! 0 * fov_h toy_seeded / real_of_int (img_width toy_seeded)
               * delta_t toy_seeded) / delta_t toy_seeded"
proof -
  have a: "\<not> Mat_empty (last_im toy_seeded)"
    by (simp add: toy_seeded_fields frame_A_not_empty)
  have b: "calcOpticalFlowPyrLK toy_cv (last_im toy_seeded) frame_A (features toy_seeded)
             (16, 16) 2 criteria = Inr ([Point2f 0 1, Point2f 1 2], [1, 0], [0, 0])"
    by (simp add: toy_seeded_fields toy_track_A)
  have c: "pixel_velocities (delta_t toy_seeded) (features toy_seeded)
             [Point2f 0 1, Point2f 1 2] [1, 0] 0 ([], [], []) = Inr ([1], [0], [Point2f 0 0])"
    by (simp add: toy_seeded_fields toy_pixel_velocities)
  have d: "fst (calculateRealVel toy_cv toy_seeded frame_A 2) =
             Inr ([6 / 5], [0], [Point2f 0 1, Point2f 1 2], [Point2f 0 0], True)"
    by (simp add: toy_second_call)
  from C1_real_velocity_formula [OF a toy_gray_A b c d]
  have "[6 / 5] ! 0 =
          2 * tan ([1] ! 0 * fov_v toy_seeded / real_of_int (img_height toy_seeded)
                    * delta_t toy_seeded) / delta_t toy_seeded \<and>
        [0] ! 0 =
          2 * tan ([0] ! 0 * fov_h toy_seeded / real_of_int (img_width toy_seeded)
                    * delta_t toy_seeded) / delta_t toy_seeded"
    by simp
  with a toy_gray_A b c d show ?thesis by blast
qed

subsection \<open>C2: the forward and lateral remap\<close>

text \<open>
  Claim C2. In the tracking branch, for every feature that the tracker reports as
  tracked, with \<open>(dx, dy)\<close> its new location minus its old one and \<open>T\<close> the frame interval,
  the pixel velocity that \<open>calculateRealVel\<close> computes before the conversion is
  \<open>vx = dy / T\<close> on the forward axis and \<open>vy = - dx / T\<close> on the lateral axis: the call
  returns, with one velocity pair and one old location per surviving feature, in
  order, and the returned velocities are the conversion of exactly these pixel
  velocities. The image is one on which the grey conversion and the detector do not
  raise, and the tracker gives one new point and one status byte per feature.
\<close>

theorem C2_pixel_velocity_remap:
  assumes "\<not> Mat_empty (last_im s)"
    and "tracks_every_point cv"
    and "to_gray cv img = Inr current_gray"
    and "calcOpticalFlowPyrLK cv (last_im s) current_gray (features s) (16, 16) 2 criteria =
           Inr (new_features, status, err)"
    and "goodFeaturesToTrack cv current_gray 1000 (1 / 10) 8 2 = Inr corners"
  shows "\<exists>vels_x vels_y v_est_x v_est_y old_features.
           pixel_velocities (delta_t s) (features s) new_features status 0 ([], [], []) =
             Inr (vels_x, vels_y, old_features) \<and>
           fst (calculateRealVel cv s img height) =
             Inr (v_est_x, v_est_y, new_features, old_features, True) \<and>
           length vels_x = length (survivors status 0 (length new_features)) \<and>
           length vels_y = length (survivors status 0 (length new_features)) \<and>
           length v_est_x = length (survivors status 0 (length new_features)) \<and>
           length v_est_y = length (survivors status 0 (length new_features)) \<and>
           length old_features = length (survivors status 0 (length new_features)) \<and>
           (\<forall>j<length (survivors status 0 (length new_features)).
              old_features ! j = features s ! (survivors status 0 (length new_features) ! j) \<and>
              vels_x ! j =
                (pt_y (new_features ! (survivors status 0 (length new_features) ! j)) -
                 pt_y (features s ! (survivors status 0 (length new_features) ! j))) / delta_t s \<and>
              vels_y ! j =
                - (pt_x (new_features ! (survivors status 0 (length new_features) ! j)) -
                   pt_x (features s ! (survivors status 0 (length new_features) ! j))) / delta_t s \<and>
              v_est_x ! j =
                height * tan ((pt_y (new_features ! (survivors status 0 (length new_features) ! j)) -
                               pt_y (features s ! (survivors status 0 (length new_features) ! j)))
                              / delta_t s * fov_v s / real_of_int (img_height s) * delta_t s)
                  / delta_t s \<and>
              v_est_y ! j =
                height * tan (- (pt_x (new_features ! (survivors status 0 (length new_features) ! j)) -
                                 pt_x (features s ! (survivors status 0 (length new_features) ! j)))
                              / delta_t s * fov_h s / real_of_int (img_width s) * delta_t s)
                  / delta_t s)"
proof -
  let ?sv = "survivors status 0 (length new_features)"
  from assms(2,4) have len: "length new_features \<le> length status"
    "length new_features \<le> length (features s)"
    unfolding tracks_every_point_def by fastforce+
  from pixel_velocities_total [OF len] obtain vels_x vels_y old_features where
    pv: "pixel_velocities (delta_t s) (features s) new_features status 0 ([], [], []) =
           Inr (vels_x, vels_y, old_features)"
    by (metis prod_cases3)
  from pixel_velocities_Inr [OF pv]
  have vx: "vels_x = map (\<lambda>k. (pt_y (new_features ! k) - pt_y (features s ! k)) / delta_t s) ?sv"
    and vy: "vels_y = map (\<lambda>k. - (pt_x (new_features ! k) - pt_x (features s ! k)) / delta_t s) ?sv"
    and vo: "old_features = map (\<lambda>k. features s ! k) ?sv"
    by simp_all
  let ?ex = "fst (real_velocities s height vels_x vels_y)"
  let ?ey = "snd (real_velocities s height vels_x vels_y)"
  have run: "fst (calculateRealVel cv s img height) =
               Inr (?ex, ?ey, new_features, old_features, True)"
    by (simp add: calculateRealVel_tracking [OF assms(1,3,4) pv assms(5)])
  have lens: "length vels_x = length ?sv" "length vels_y = length ?sv"
    "length ?ex = length ?sv" "length ?ey = length ?sv" "length old_features = length ?sv"
    using real_velocities_length [of s height vels_x vels_y] by (simp_all add: vx vy vo)
  have each: "old_features ! j = features s ! (?sv ! j) \<and>
      vels_x ! j = (pt_y (new_features ! (?sv ! j)) - pt_y (features s ! (?sv ! j))) / delta_t s \<and>
      vels_y ! j = - (pt_x (new_features ! (?sv ! j)) - pt_x (features s ! (?sv ! j))) / delta_t s \<and>
      ?ex ! j =
        height * tan ((pt_y (new_features ! (?sv ! j)) - pt_y (features s ! (?sv ! j)))
                      / delta_t s * fov_v s / real_of_int (img_height s) * delta_t s)
          / delta_t s \<and>
      ?ey ! j =
        height * tan (- (pt_x (new_features ! (?sv ! j)) - pt_x (features s ! (?sv ! j)))
                      / delta_t s * fov_h s / real_of_int (img_width s) * delta_t s)
          / delta_t s"
    if j: "j < length ?sv" for j
  proof -
    from j lens have jx: "j < length vels_x" by simp
    have a: "vels_x ! j =
               (pt_y (new_features ! (?sv ! j)) - pt_y (features s ! (?sv ! j))) / delta_t s"
      "vels_y ! j =
               - (pt_x (new_features ! (?sv ! j)) - pt_x (features s ! (?sv ! j))) / delta_t s"
      "old_features ! j = features s ! (?sv ! j)"
      using j by (simp_all add: vx vy vo)
    from real_velocities_nth [OF jx, of s height vels_y] a
    show ?thesis by simp
  qed
  from pv run lens each show ?thesis by blast
qed

text \<open>
  The theorem at the second call on \<open>frame_A\<close>: one feature moves down by a pixel,
  one is lost.
\<close>

theorem C2_witness:
  "\<not> Mat_empty (last_im toy_seeded) \<and>
   tracks_every_point toy_cv \<and>
   to_gray toy_cv frame_A = Inr frame_A \<and>
   calcOpticalFlowPyrLK toy_cv (last_im toy_seeded) frame_A (features toy_seeded) (16, 16) 2
       criteria = Inr ([Point2f 0 1, Point2f 1 2], [1, 0], [0, 0]) \<and>
   goodFeaturesToTrack toy_cv frame_A 1000 (1 / 10) 8 2 = Inr [Point2f 0 0, Point2f 1 1] \<and>
   (\<exists>vels_x vels_y v_est_x v_est_y old_features.
      pixel_velocities (delta_t toy_seeded) (features toy_seeded) [Point2f 0 1, Point2f 1 2]
        [1, 0] 0 ([], [], []) = Inr (vels_x, vels_y, old_features) \<and>
      fst (calculateRealVel toy_cv toy_seeded frame_A 1) =
        Inr (v_est_x, v_est_y, [Point2f 0 1, Point2f 1 2], old_features, True) \<and>
      length v_est_x = 1 \<and> length v_est_y = 1 \<and>
      vels_x ! 0 = (1 - 0) / 1 \<and> vels_y ! 0 = - (0 - 0) / 1 \<and>
      v_est_x ! 0 = 3 / 5 \<and> v_est_y ! 0 = 0)"
proof -
  have b: "calcOpticalFlowPyrLK toy_cv (last_im toy_seeded) frame_A (features toy_seeded)
             (16, 16) 2 criteria = Inr ([Point2f 0 1, Point2f 1 2], [1, 0], [0, 0])"
    by (simp add: toy_seeded_fields toy_track_A)
  have sv: "survivors [1, 0] 0 (length [Point2f 0 1, Point2f 1 2]) = [0]"
    by (simp add: survivors_def upt_rec)
  from C2_pixel_velocity_remap [OF toy_seeded_tracking toy_tracks_every_point toy_gray_A b
      toy_detect_A, of 1]
  have "\<exists>vels_x vels_y v_est_x v_est_y old_features.
      pixel_velocities (delta_t toy_seeded) (features toy_seeded) [Point2f 0 1, Point2f 1 2]
        [1, 0] 0 ([], [], []) = Inr (vels_x, vels_y, old_features) \<and>
      fst (calculateRealVel toy_cv toy_seeded frame_A 1) =
        Inr (v_est_x, v_est_y, [Point2f 0 1, Point2f 1 2], old_features, True) \<and>
      length v_est_x = 1 \<and> length v_est_y = 1 \<and>
      vels_x ! 0 = (1 - 0) / 1 \<and> vels_y ! 0 = - (0 - 0) / 1 \<and>
      v_est_x ! 0 = 3 / 5 \<and> v_est_y ! 0 = 0"
    unfolding sv by (simp add: toy_seeded_fields tan_arctan) blast
  with toy_seeded_tracking toy_tracks_every_point toy_gray_A b toy_detect_A
  show ?thesis by blast
qed

subsection \<open>C3: the first call\<close>

text \<open>
  Claim C3. On a freshly constructed tracker, the first \<open>calculateRealVel\<close> on an image
  that OpenCV accepts extracts the features of that image and returns four empty
  sequences and success, without tracking: the outcome is the same whatever the
  tracking routine is, and the frame counter stays at zero. Afterwards
  \<open>_has_features()\<close> holds exactly when the detector found a corner.
\<close>

theorem C3_first_call:
  assumes "to_gray cv img = Inr gray"
    and "goodFeaturesToTrack cv gray 1000 (1 / 10) 8 2 = Inr corners"
  shows "fst (calculateRealVel (cv\<lparr>calcOpticalFlowPyrLK := lk\<rparr>)
                (OpticalFlowTracking_ctor m dt f w h) img height) =
           Inr ([], [], [], [], True) \<and>
         has_features (snd (calculateRealVel (cv\<lparr>calcOpticalFlowPyrLK := lk\<rparr>)
                (OpticalFlowTracking_ctor m dt f w h) img height)) = (corners \<noteq> []) \<and>
         features (snd (calculateRealVel (cv\<lparr>calcOpticalFlowPyrLK := lk\<rparr>)
                (OpticalFlowTracking_ctor m dt f w h) img height)) = corners \<and>
         debug_count (snd (calculateRealVel (cv\<lparr>calcOpticalFlowPyrLK := lk\<rparr>)
                (OpticalFlowTracking_ctor m dt f w h) img height)) = 0"
proof -
  have e: "Mat_empty (last_im (OpticalFlowTracking_ctor m dt f w h))"
    by (simp add: OpticalFlowTracking_ctor_def Mat_default_def Mat_empty_def)
  have "to_gray (cv\<lparr>calcOpticalFlowPyrLK := lk\<rparr>) img = to_gray cv img"
    by (simp add: to_gray_def)
  with assms have g: "to_gray (cv\<lparr>calcOpticalFlowPyrLK := lk\<rparr>) img = Inr gray"
    by simp
  from assms have d:
    "goodFeaturesToTrack (cv\<lparr>calcOpticalFlowPyrLK := lk\<rparr>) gray 1000 (1 / 10) 8 2 = Inr corners"
    by simp
  show ?thesis
    unfolding calculateRealVel_unseeded [OF e] extractFeatures_returns [OF g d]
    by (simp add: has_features_def OpticalFlowTracking_ctor_def)
qed

text \<open>
  The theorem for \<open>frame_A\<close>, with a tracking routine that would raise if called.
\<close>

theorem C3_witness:
  "to_gray toy_cv frame_A = Inr frame_A \<and>
   goodFeaturesToTrack toy_cv frame_A 1000 (1 / 10) 8 2 = Inr [Point2f 0 0, Point2f 1 1] \<and>
   fst (calculateRealVel
          (toy_cv\<lparr>calcOpticalFlowPyrLK := (\<lambda>prev nxt pts win lvl crit. Inl (cv_Exception ''not called''))\<rparr>)
          toy_tracker frame_A 1) = Inr ([], [], [], [], True) \<and>
   has_features (snd (calculateRealVel
          (toy_cv\<lparr>calcOpticalFlowPyrLK := (\<lambda>prev nxt pts win lvl crit. Inl (cv_Exception ''not called''))\<rparr>)
          toy_tracker frame_A 1))"
  using C3_first_call [OF toy_gray_A toy_detect_A,
      of "\<lambda>prev nxt pts win lvl crit. Inl (cv_Exception ''not called'')"
         100 1 "4 / 1000" "64 / 10000" "48 / 10000" 1]
    toy_gray_A toy_detect_A
  by (simp add: toy_tracker_def)

subsection \<open>C4: what a detection does to the reference frame\<close>

text \<open>
  The re-seed step of the tracking branch stores the current frame whether or not the
  detector finds a corner: after a first call on \<open>frame_A\<close>, a call on the blank frame
  returns normally, detects nothing, and still replaces the stored frame.
\<close>

theorem C4_counterexample:
  "\<not> Mat_empty (last_im toy_seeded) \<and>
   goodFeaturesToTrack toy_cv frame_blank 1000 (1 / 10) 8 2 = Inr [] \<and>
   fst (calculateRealVel toy_cv toy_seeded frame_blank 1) =
     Inr ([3 / 5], [0], [Point2f 0 1, Point2f 1 2], [Point2f 0 0], True) \<and>
   last_im (snd (calculateRealVel toy_cv toy_seeded frame_blank 1)) = frame_blank \<and>
   last_im toy_seeded \<noteq> frame_blank"
  by (simp add: toy_seeded_tracking toy_detect_blank toy_call_blank)
     (simp add: toy_seeded_fields frame_A_def frame_blank_def)

text \<open>
  Claim C4, as the code has it. Through \<open>extractFeatures\<close> (called directly, or by the
  first \<open>calculateRealVel\<close>), a detection that finds corners records the grey image and
  its pixel dimensions, and an empty detection leaves the stored frame and the
  dimensions as they were. In the re-seed step of a \<open>calculateRealVel\<close> that returns in
  the tracking branch, the current grey image becomes the stored frame and the
  detected corners the feature set, whether or not any corner was found; the stored
  dimensions are not written there, but in every reachable state they are the pixel
  dimensions of the new stored frame, since the tracking routine returns only for a
  frame of the size of the previous one.
\<close>

theorem C4_reference_frame:
  assumes "to_gray cv img = Inr gray"
    and "goodFeaturesToTrack cv gray 1000 (1 / 10) 8 2 = Inr corners"
  shows "(corners \<noteq> [] \<longrightarrow>
            features (snd (extractFeatures cv s img)) = corners \<and>
            last_im (snd (extractFeatures cv s img)) = gray \<and>
            img_width (snd (extractFeatures cv s img)) = int (cols gray) \<and>
            img_height (snd (extractFeatures cv s img)) = int (rows gray)) \<and>
         (corners = [] \<longrightarrow>
            features (snd (extractFeatures cv s img)) = [] \<and>
            last_im (snd (extractFeatures cv s img)) = last_im s \<and>
            img_width (snd (extractFeatures cv s img)) = img_width s \<and>
            img_height (snd (extractFeatures cv s img)) = img_height s) \<and>
         (Mat_empty (last_im s) \<longrightarrow>
            snd (calculateRealVel cv s img height) = snd (extractFeatures cv s img)) \<and>
         (\<not> Mat_empty (last_im s) \<and> (\<exists>r. fst (calculateRealVel cv s img height) = Inr r) \<longrightarrow>
            features (snd (calculateRealVel cv s img height)) = corners \<and>
            last_im (snd (calculateRealVel cv s img height)) = gray \<and>
            (reachable cv s \<and> tracks_same_size cv \<longrightarrow>
               img_width (snd (calculateRealVel cv s img height)) = int (cols gray) \<and>
               img_height (snd (calculateRealVel cv s img height)) = int (rows gray)))"
proof -
  have tracking: "features (snd (calculateRealVel cv s img height)) = corners \<and>
                  last_im (snd (calculateRealVel cv s img height)) = gray \<and>
                  (reachable cv s \<and> tracks_same_size cv \<longrightarrow>
                     img_width (snd (calculateRealVel cv s img height)) = int (cols gray) \<and>
                     img_height (snd (calculateRealVel cv s img height)) = int (rows gray))"
    if ne: "\<not> Mat_empty (last_im s)"
      and ret: "fst (calculateRealVel cv s img height) = Inr r" for r
  proof -
    from ne ret obtain g nf st er vx vy olds cs where
      g: "to_gray cv img = Inr g"
      and lk: "calcOpticalFlowPyrLK cv (last_im s) g (features s) (16, 16) 2 criteria =
                 Inr (nf, st, er)"
      and pv: "pixel_velocities (delta_t s) (features s) nf st 0 ([], [], []) =
                 Inr (vx, vy, olds)"
      and det: "goodFeaturesToTrack cv g 1000 (1 / 10) 8 2 = Inr cs"
      by (rule calculateRealVel_tracking_returns)
    from g assms(1) have g_eq: "g = gray" by simp
    with det assms(2) have cs_eq: "cs = corners" by simp
    note run = calculateRealVel_tracking [OF ne g lk pv det, of height]
    have stored: "features (snd (calculateRealVel cv s img height)) = corners"
      "last_im (snd (calculateRealVel cv s img height)) = gray"
      "img_width (snd (calculateRealVel cv s img height)) = img_width s"
      "img_height (snd (calculateRealVel cv s img height)) = img_height s"
      by (simp_all add: run g_eq cs_eq)
    have dims: "img_width s = int (cols gray) \<and> img_height s = int (rows gray)"
      if r: "reachable cv s" and same: "tracks_same_size cv"
    proof -
      from dims_of_stored_frame [OF r same] ne
      have "img_width s = int (cols (last_im s))" "img_height s = int (rows (last_im s))"
        by simp_all
      moreover from same lk g_eq
      have "rows gray = rows (last_im s) \<and> cols gray = cols (last_im s)"
        unfolding tracks_same_size_def by blast
      ultimately show ?thesis by simp
    qed
    from stored dims show ?thesis by simp
  qed
  have ex: "snd (extractFeatures cv s img) =
              (if corners \<noteq> []
               then s\<lparr>features := corners, last_im := gray,
                      img_width := int (cols gray), img_height := int (rows gray)\<rparr>
               else s\<lparr>features := []\<rparr>)"
    by (simp add: extractFeatures_returns [OF assms])
  have unseeded: "Mat_empty (last_im s) \<longrightarrow>
            snd (calculateRealVel cv s img height) = snd (extractFeatures cv s img)"
    using calculateRealVel_unseeded_state [of s cv img height] by blast
  have direct: "(corners \<noteq> [] \<longrightarrow>
            features (snd (extractFeatures cv s img)) = corners \<and>
            last_im (snd (extractFeatures cv s img)) = gray \<and>
            img_width (snd (extractFeatures cv s img)) = int (cols gray) \<and>
            img_height (snd (extractFeatures cv s img)) = int (rows gray)) \<and>
         (corners = [] \<longrightarrow>
            features (snd (extractFeatures cv s img)) = [] \<and>
            last_im (snd (extractFeatures cv s img)) = last_im s \<and>
            img_width (snd (extractFeatures cv s img)) = img_width s \<and>
            img_height (snd (extractFeatures cv s img)) = img_height s)"
    by (simp add: ex)
  from direct unseeded tracking show ?thesis by blast
qed

text \<open>
  The theorem on \<open>frame_A\<close>, where corners are found (through \<open>extractFeatures\<close> on the
  fresh tracker, and through the re-seed on the seeded one), and on the blank frame,
  where none is found.
\<close>

theorem C4_witness:
  "to_gray toy_cv frame_A = Inr frame_A \<and>
   goodFeaturesToTrack toy_cv frame_A 1000 (1 / 10) 8 2 = Inr [Point2f 0 0, Point2f 1 1] \<and>
   to_gray toy_cv frame_blank = Inr frame_blank \<and>
   goodFeaturesToTrack toy_cv frame_blank 1000 (1 / 10) 8 2 = Inr [] \<and>
   \<not> Mat_empty (last_im toy_seeded) \<and> reachable toy_cv toy_seeded \<and> tracks_same_size toy_cv \<and>
   fst (calculateRealVel toy_cv toy_seeded frame_A 1) =
     Inr ([3 / 5], [0], [Point2f 0 1, Point2f 1 2], [Point2f 0 0], True) \<and>
   fst (calculateRealVel toy_cv toy_seeded frame_blank 1) =
     Inr ([3 / 5], [0], [Point2f 0 1, Point2f 1 2], [Point2f 0 0], True) \<and>
   features (snd (extractFeatures toy_cv toy_tracker frame_A)) = [Point2f 0 0, Point2f 1 1] \<and>
   last_im (snd (extractFeatures toy_cv toy_tracker frame_A)) = frame_A \<and>
   img_width (snd (extractFeatures toy_cv toy_tracker frame_A)) = int (cols frame_A) \<and>
   img_height (snd (extractFeatures toy_cv toy_tracker frame_A)) = int (rows frame_A) \<and>
   features (snd (extractFeatures toy_cv toy_seeded frame_blank)) = [] \<and>
   last_im (snd (extractFeatures toy_cv toy_seeded frame_blank)) = last_im toy_seeded \<and>
   img_width (snd (extractFeatures toy_cv toy_seeded frame_blank)) = img_width toy_seeded \<and>
   img_height (snd (extractFeatures toy_cv toy_seeded frame_blank)) = img_height toy_seeded \<and>
   features (snd (calculateRealVel toy_cv toy_seeded frame_A 1)) = [Point2f 0 0, Point2f 1 1] \<and>
   last_im (snd (calculateRealVel toy_cv toy_seeded frame_A 1)) = frame_A \<and>
   img_width (snd (calculateRealVel toy_cv toy_seeded frame_A 1)) = int (cols frame_A) \<and>
   img_height (snd (calculateRealVel toy_cv toy_seeded frame_A 1)) = int (rows frame_A) \<and>
   features (snd (calculateRealVel toy_cv toy_seeded frame_blank 1)) = [] \<and>
   last_im (snd (calculateRealVel toy_cv toy_seeded frame_blank 1)) = frame_blank \<and>
   img_width (snd (calculateRealVel toy_cv toy_seeded frame_blank 1)) = int (cols frame_blank) \<and>
   img_height (snd (calculateRealVel toy_cv toy_seeded frame_blank 1)) = int (rows frame_blank)"
proof -
  have retA: "fst (calculateRealVel toy_cv toy_seeded frame_A 1) =
     Inr ([3 / 5], [0], [Point2f 0 1, Point2f 1 2], [Point2f 0 0], True)"
    by (simp add: toy_second_call)
  have retB: "fst (calculateRealVel toy_cv toy_seeded frame_blank 1) =
     Inr ([3 / 5], [0], [Point2f 0 1, Point2f 1 2], [Point2f 0 0], True)"
    by (simp add: toy_call_blank)
  note hyps = toy_gray_A toy_detect_A toy_gray_blank toy_detect_blank toy_seeded_tracking
    toy_seeded_reachable toy_tracks_same_size retA retB
  from C4_reference_frame [OF toy_gray_A toy_detect_A, of toy_tracker 1] hyps
  have first: "features (snd (extractFeatures toy_cv toy_tracker frame_A)) =
                 [Point2f 0 0, Point2f 1 1] \<and>
               last_im (snd (extractFeatures toy_cv toy_tracker frame_A)) = frame_A \<and>
               img_width (snd (extractFeatures toy_cv toy_tracker frame_A)) = int (cols frame_A) \<and>
               img_height (snd (extractFeatures toy_cv toy_tracker frame_A)) = int (rows frame_A)"
    by simp
  from C4_reference_frame [OF toy_gray_A toy_detect_A, of toy_seeded 1] hyps
  have second: "features (snd (calculateRealVel toy_cv toy_seeded frame_A 1)) =
                  [Point2f 0 0, Point2f 1 1] \<and>
                last_im (snd (calculateRealVel toy_cv toy_seeded frame_A 1)) = frame_A \<and>
                img_width (snd (calculateRealVel toy_cv toy_seeded frame_A 1)) =
                  int (cols frame_A) \<and>
                img_height (snd (calculateRealVel toy_cv toy_seeded frame_A 1)) =
                  int (rows frame_A)"
    by auto
  from C4_reference_frame [OF toy_gray_blank toy_detect_blank, of toy_seeded 1] hyps
  have third: "features (snd (extractFeatures toy_cv toy_seeded frame_blank)) = [] \<and>
     last_im (snd (extractFeatures toy_cv toy_seeded frame_blank)) = last_im toy_seeded \<and>
     img_width (snd (extractFeatures toy_cv toy_seeded frame_blank)) = img_width toy_seeded \<and>
     img_height (snd (extractFeatures toy_cv toy_seeded frame_blank)) = img_height toy_seeded \<and>
     features (snd (calculateRealVel toy_cv toy_seeded frame_blank 1)) = [] \<and>
     last_im (snd (calculateRealVel toy_cv toy_seeded frame_blank 1)) = frame_blank \<and>
     img_width (snd (calculateRealVel toy_cv toy_seeded frame_blank 1)) =
       int (cols frame_blank) \<and>
     img_height (snd (calculateRealVel toy_cv toy_seeded frame_blank 1)) =
       int (rows frame_blank)"
    by auto
  from hyps first second third show ?thesis by blast
qed

subsection \<open>C5: features and stored frame\<close>

text \<open>
  A reachable state with no features and a stored frame: \<open>extractFeatures\<close> on the
  blank frame, after a first call on \<open>frame_A\<close>, clears the features and keeps the
  frame.
\<close>

theorem C5_counterexample:
  "reachable toy_cv (snd (extractFeatures toy_cv toy_seeded frame_blank)) \<and>
   features (snd (extractFeatures toy_cv toy_seeded frame_blank)) = [] \<and>
   \<not> Mat_empty (last_im (snd (extractFeatures toy_cv toy_seeded frame_blank)))"
proof -
  have "reachable toy_cv (snd (extractFeatures toy_cv toy_seeded frame_blank))"
    by (rule reachable.by_extractFeatures [OF toy_seeded_reachable])
  then show ?thesis
    by (simp add: toy_extract_blank toy_seeded_tracking)
qed

text \<open>
  Claim C5, as the code has it. Features and stored frame are refreshed together:
  in every reachable state, a tracker that has features holds exactly the features
  that the detector finds in its stored frame, and that frame is not empty when the
  detector finds no corner in an empty image. So either the features are those of
  the stored frame, or there are no features; the stored frame need not be empty
  then, as shown above.
\<close>

theorem C5_features_belong_to_frame:
  assumes "reachable cv s" and "has_features s"
  shows "goodFeaturesToTrack cv (last_im s) 1000 (1 / 10) 8 2 = Inr (features s) \<and>
         (no_corner_in_empty cv \<longrightarrow> \<not> Mat_empty (last_im s))"
proof -
  from assms(2) have ne: "features s \<noteq> []" by (simp add: has_features_def)
  with features_detected_in_stored_frame [OF assms(1)]
  have det: "goodFeaturesToTrack cv (last_im s) 1000 (1 / 10) 8 2 = Inr (features s)"
    by blast
  have "\<not> Mat_empty (last_im s)" if "no_corner_in_empty cv"
    by (rule detected_in_nonempty(1) [OF that det ne])
  with det show ?thesis by blast
qed

text \<open>
  The theorem on the seeded tracker.
\<close>

theorem C5_witness:
  "reachable toy_cv toy_seeded \<and> has_features toy_seeded \<and>
   goodFeaturesToTrack toy_cv (last_im toy_seeded) 1000 (1 / 10) 8 2 =
     Inr (features toy_seeded) \<and>
   no_corner_in_empty toy_cv \<and> \<not> Mat_empty (last_im toy_seeded)"
proof -
  have h: "has_features toy_seeded"
    by (simp add: has_features_def toy_seeded_fields)
  from C5_features_belong_to_frame [OF toy_seeded_reachable h]
    toy_seeded_reachable toy_no_corner_in_empty h
  show ?thesis by simp
qed

subsection \<open>C6: the returned sequences\<close>

text \<open>
  Claim C6 asks for four parallel sequences, one entry per surviving feature. On the
  seeded tracker and \<open>frame_A\<close>, the tracker loses the second of the two features
  (status bytes 1 and 0); \<open>calculateRealVel\<close> returns one velocity pair and one old
  location, and both new locations, the lost one included: \<open>new_features\<close> is returned
  as the tracker filled it. The bounds of the claim do hold, see
  \<open>returned_lengths\<close>.
\<close>

theorem C6_new_locations_unfiltered:
  "calcOpticalFlowPyrLK toy_cv (last_im toy_seeded) frame_A (features toy_seeded) (16, 16) 2
     criteria = Inr ([Point2f 0 1, Point2f 1 2], [1, 0], [0, 0]) \<and>
   fst (calculateRealVel toy_cv toy_seeded frame_A 1) =
     Inr ([3 / 5], [0], [Point2f 0 1, Point2f 1 2], [Point2f 0 0], True)"
  by (simp add: toy_second_call toy_seeded_fields toy_track_A)

subsection \<open>C7: an exception raised by OpenCV\<close>




subsection \<open>C8: construction with non-positive camera parameters\<close>

text \<open>
  The constructor checks nothing. With focal length \<open>-1\<close>, sensor width \<open>-2\<close> and sensor
  height \<open>0\<close> it yields a tracker that stores these values, seeds itself on the first
  call and returns velocities on the second.
\<close>

theorem C8_counterexample:
  "focal_length (OpticalFlowTracking_ctor 100 1 (- 1) (- 2) 0) = - 1 \<and>
   cmos_width (OpticalFlowTracking_ctor 100 1 (- 1) (- 2) 0) = - 2 \<and>
   cmos_height (OpticalFlowTracking_ctor 100 1 (- 1) (- 2) 0) = 0 \<and>
   fst (calculateRealVel toy_cv (OpticalFlowTracking_ctor 100 1 (- 1) (- 2) 0) frame_A 1) =
     Inr ([], [], [], [], True) \<and>
   has_features (snd (calculateRealVel toy_cv (OpticalFlowTracking_ctor 100 1 (- 1) (- 2) 0)
                        frame_A 1)) \<and>
   fst (calculateRealVel toy_cv
          (snd (calculateRealVel toy_cv (OpticalFlowTracking_ctor 100 1 (- 1) (- 2) 0) frame_A 1))
          frame_A 1) =
     Inr ([0], [0], [Point2f 0 1, Point2f 1 2], [Point2f 0 0], True)"
proof -
  let ?s = "(OpticalFlowTracking_ctor 100 1 (- 1) (- 2) 0)
              \<lparr>features := [Point2f 0 0, Point2f 1 1], last_im := frame_A,
               img_width := 2, img_height := 2\<rparr>"
  have a: "\<not> Mat_empty (last_im ?s)"
    by (simp add: frame_A_not_empty)
  have b: "calcOpticalFlowPyrLK toy_cv (last_im ?s) frame_A (features ?s) (16, 16) 2 criteria =
             Inr ([Point2f 0 1, Point2f 1 2], [1, 0], [0, 0])"
    by (simp add: toy_track_A)
  have c: "pixel_velocities (delta_t ?s) (features ?s) [Point2f 0 1, Point2f 1 2] [1, 0] 0
             ([], [], []) = Inr ([1], [0], [Point2f 0 0])"
    by (simp add: OpticalFlowTracking_ctor_def toy_pixel_velocities)
  have second: "fst (calculateRealVel toy_cv ?s frame_A 1) =
                  Inr ([0], [0], [Point2f 0 1, Point2f 1 2], [Point2f 0 0], True)"
    unfolding calculateRealVel_tracking [OF a toy_gray_A b c toy_detect_A]
    by (simp add: real_velocities_def OpticalFlowTracking_ctor_def)
  show ?thesis
    unfolding toy_first_call using second
    by (simp add: has_features_def) (simp add: OpticalFlowTracking_ctor_def)
qed

text \<open>
  Claim C8, as the code has it. For every parameter combination, non-positive ones
  included, the constructor yields a tracker without features and without stored
  frame that holds the parameters as given and, for a focal length other than zero,
  the fields of view \<open>2 * atan (sensor / (2 * focal))\<close>. The tracker is usable: its first
  \<open>calculateRealVel\<close> on an image that OpenCV accepts succeeds and seeds it.
\<close>

theorem C8_constructor_accepts_all:
  assumes "to_gray cv img = Inr gray"
    and "goodFeaturesToTrack cv gray 1000 (1 / 10) 8 2 = Inr corners"
  shows "focal_length (OpticalFlowTracking_ctor m dt f w h) = f \<and>
         cmos_width (OpticalFlowTracking_ctor m dt f w h) = w \<and>
         cmos_height (OpticalFlowTracking_ctor m dt f w h) = h \<and>
         (f \<noteq> 0 \<longrightarrow>
            fov_h (OpticalFlowTracking_ctor m dt f w h) = 2 * arctan (w / (2 * f)) \<and>
            fov_v (OpticalFlowTracking_ctor m dt f w h) = 2 * arctan (h / (2 * f))) \<and>
         Mat_empty (last_im (OpticalFlowTracking_ctor m dt f w h)) \<and>
         \<not> has_features (OpticalFlowTracking_ctor m dt f w h) \<and>
         reachable cv (OpticalFlowTracking_ctor m dt f w h) \<and>
         fst (calculateRealVel cv (OpticalFlowTracking_ctor m dt f w h) img height) =
           Inr ([], [], [], [], True) \<and>
         has_features (snd (calculateRealVel cv (OpticalFlowTracking_ctor m dt f w h) img height)) =
           (corners \<noteq> [])"
proof -
  have stored: "focal_length (OpticalFlowTracking_ctor m dt f w h) = f"
    "cmos_width (OpticalFlowTracking_ctor m dt f w h) = w"
    "cmos_height (OpticalFlowTracking_ctor m dt f w h) = h"
    "fov_h (OpticalFlowTracking_ctor m dt f w h) = 2 * arctan (w / (2 * f))"
    "fov_v (OpticalFlowTracking_ctor m dt f w h) = 2 * arctan (h / (2 * f))"
    by (simp_all add: OpticalFlowTracking_ctor_def)
  have unseeded: "Mat_empty (last_im (OpticalFlowTracking_ctor m dt f w h))"
    "\<not> has_features (OpticalFlowTracking_ctor m dt f w h)"
    by (simp_all add: ctor_fields has_features_def)
  have usable: "fst (calculateRealVel cv (OpticalFlowTracking_ctor m dt f w h) img height) =
           Inr ([], [], [], [], True)"
    "has_features (snd (calculateRealVel cv (OpticalFlowTracking_ctor m dt f w h) img height)) =
           (corners \<noteq> [])"
    by (simp_all add: calculateRealVel_unseeded [OF unseeded(1)]
          extractFeatures_returns [OF assms] has_features_def ctor_fields)
  from stored unseeded usable reachable.by_ctor [of cv m dt f w h]
  show ?thesis by simp
qed

text \<open>
  The theorem at focal length \<open>-1\<close>, sensor width \<open>-2\<close>, sensor height \<open>0\<close>.
\<close>

theorem C8_witness:
  "to_gray toy_cv frame_A = Inr frame_A \<and>
   goodFeaturesToTrack toy_cv frame_A 1000 (1 / 10) 8 2 = Inr [Point2f 0 0, Point2f 1 1] \<and>
   focal_length (OpticalFlowTracking_ctor 100 1 (- 1) (- 2) 0) = - 1 \<and>
   fov_h (OpticalFlowTracking_ctor 100 1 (- 1) (- 2) 0) = 2 * arctan (- 2 / (2 * - 1)) \<and>
   reachable toy_cv (OpticalFlowTracking_ctor 100 1 (- 1) (- 2) 0) \<and>
   fst (calculateRealVel toy_cv (OpticalFlowTracking_ctor 100 1 (- 1) (- 2) 0) frame_A 1) =
     Inr ([], [], [], [], True) \<and>
   has_features (snd (calculateRealVel toy_cv (OpticalFlowTracking_ctor 100 1 (- 1) (- 2) 0)
                        frame_A 1))"
  using C8_constructor_accepts_all [OF toy_gray_A toy_detect_A, of 100 1 "- 1" "- 2" 0 1]
    toy_gray_A toy_detect_A
  by simp

subsection \<open>C9: scaling with the height\<close>

text \<open>
  Claim C9. With the tracker state, the library and the image fixed, doubling the
  height doubles every returned velocity component, hence the magnitude of every
  returned velocity; the feature sequences, the flag and the state after the call
  are the same.
\<close>

theorem C9_height_scaling:
  assumes "fst (calculateRealVel cv s img height) = Inr (v_est_x, v_est_y, new_pts, old_pts, ok)"
  shows "calculateRealVel cv s img (2 * height) =
           (Inr (map (\<lambda>v. 2 * v) v_est_x, map (\<lambda>v. 2 * v) v_est_y, new_pts, old_pts, ok),
            snd (calculateRealVel cv s img height)) \<and>
         (\<forall>j<length v_est_x.
            sqrt ((2 * v_est_x ! j)\<^sup>2 + (2 * v_est_y ! j)\<^sup>2) =
              2 * sqrt ((v_est_x ! j)\<^sup>2 + (v_est_y ! j)\<^sup>2))"
proof -
  have first: "calculateRealVel cv s img (2 * height) =
           (Inr (map (\<lambda>v. 2 * v) v_est_x, map (\<lambda>v. 2 * v) v_est_y, new_pts, old_pts, ok),
            snd (calculateRealVel cv s img height))"
  proof (cases "Mat_empty (last_im s)")
    case True
    from calculateRealVel_unseeded_result [OF True assms]
    have "fst (calculateRealVel cv s img height) =
            Inr (map (\<lambda>v. 2 * v) v_est_x, map (\<lambda>v. 2 * v) v_est_y, new_pts, old_pts, ok)"
      using assms by simp
    then show ?thesis
      unfolding calculateRealVel_unseeded_height [OF True, of cv img "2 * height" height]
      by (metis prod.collapse)
  next
    case False
    from False assms obtain g nf st er vx vy olds corners where
      g: "to_gray cv img = Inr g"
      and lk: "calcOpticalFlowPyrLK cv (last_im s) g (features s) (16, 16) 2 criteria =
                 Inr (nf, st, er)"
      and pv: "pixel_velocities (delta_t s) (features s) nf st 0 ([], [], []) =
                 Inr (vx, vy, olds)"
      and det: "goodFeaturesToTrack cv g 1000 (1 / 10) 8 2 = Inr corners"
      by (rule calculateRealVel_tracking_returns)
    note run = calculateRealVel_tracking [OF False g lk pv det]
    from run [of height] assms
    have res: "v_est_x = fst (real_velocities s height vx vy)"
      "v_est_y = snd (real_velocities s height vx vy)"
      "new_pts = nf" "old_pts = olds" "ok = True"
      by simp_all
    show ?thesis
      unfolding run [of "2 * height"] run [of height] res
      by (simp add: real_velocities_scale)
  qed
  have second: "\<forall>j<length v_est_x.
            sqrt ((2 * v_est_x ! j)\<^sup>2 + (2 * v_est_y ! j)\<^sup>2) =
              2 * sqrt ((v_est_x ! j)\<^sup>2 + (v_est_y ! j)\<^sup>2)"
  proof (intro allI impI)
    fix j
    have "sqrt ((2 * v_est_x ! j)\<^sup>2 + (2 * v_est_y ! j)\<^sup>2) =
            sqrt (4 * ((v_est_x ! j)\<^sup>2 + (v_est_y ! j)\<^sup>2))"
      by (simp add: power2_eq_square algebra_simps)
    also have "\<dots> = sqrt 4 * sqrt ((v_est_x ! j)\<^sup>2 + (v_est_y ! j)\<^sup>2)"
      by (rule real_sqrt_mult)
    also have "\<dots> = 2 * sqrt ((v_est_x ! j)\<^sup>2 + (v_est_y ! j)\<^sup>2)"
      by simp
    finally show "sqrt ((2 * v_est_x ! j)\<^sup>2 + (2 * v_est_y ! j)\<^sup>2) =
                    2 * sqrt ((v_est_x ! j)\<^sup>2 + (v_est_y ! j)\<^sup>2)" .
  qed
  from first second show ?thesis by blast
qed

text \<open>
  The theorem at the second call on \<open>frame_A\<close>: height 1 against height 2.
\<close>

theorem C9_witness:
  "fst (calculateRealVel toy_cv toy_seeded frame_A 1) =
     Inr ([3 / 5], [0], [Point2f 0 1, Point2f 1 2], [Point2f 0 0], True) \<and>
   calculateRealVel toy_cv toy_seeded frame_A (2 * 1) =
     (Inr ([6 / 5], [0], [Point2f 0 1, Point2f 1 2], [Point2f 0 0], True),
      snd (calculateRealVel toy_cv toy_seeded frame_A 1))"
proof -
  have a: "fst (calculateRealVel toy_cv toy_seeded frame_A 1) =
     Inr ([3 / 5], [0], [Point2f 0 1, Point2f 1 2], [Point2f 0 0], True)"
    by (simp add: toy_second_call)
  from C9_height_scaling [OF a] a show ?thesis by simp
qed

subsection \<open>C10: the stored frame dimensions are positive\<close>

text \<open>
  Claim C10. In every reachable state with a stored frame, \<open>_img_width\<close> and
  \<open>_img_height\<close> are positive, so the two divisions of the conversion loop do not
  divide by zero. The dimensions are only written by \<open>extractFeatures\<close>, behind the
  \<open>_has_features()\<close> guard, from an image in which the detector found a corner; such an
  image is not empty when the detector finds no corner in an empty image.
\<close>

theorem C10_frame_dimensions_positive:
  assumes "reachable cv s" and "no_corner_in_empty cv" and "\<not> Mat_empty (last_im s)"
  shows "0 < img_width s \<and> 0 < img_height s \<and>
         real_of_int (img_width s) \<noteq> 0 \<and> real_of_int (img_height s) \<noteq> 0"
proof -
  from assms(1) have "\<not> Mat_empty (last_im s) \<longrightarrow> 0 < img_width s \<and> 0 < img_height s"
  proof (induction rule: reachable.induct)
    case (by_ctor m dt f w h)
    show ?case by (simp add: ctor_fields)
  next
    case (by_set_delta_t s dt)
    then show ?case by (simp add: set_delta_t_def)
  next
    case (by_extractFeatures s img)
    from extractFeatures_state [of cv s img] by_extractFeatures.IH
      detected_in_nonempty [OF assms(2)]
    show ?case by auto
  next
    case (by_calculateRealVel s img height)
    show ?case
    proof (cases "Mat_empty (last_im s)")
      case True
      from extractFeatures_state [of cv s img] by_calculateRealVel.IH
        detected_in_nonempty [OF assms(2)]
      show ?thesis unfolding calculateRealVel_unseeded_state [OF True] by auto
    next
      case False
      from calculateRealVel_tracking_state [OF False, of cv img height]
        by_calculateRealVel.IH False
      show ?thesis by auto
    qed
  qed
  with assms(3) show ?thesis by simp
qed

text \<open>
  The theorem on the seeded tracker.
\<close>

theorem C10_witness:
  "reachable toy_cv toy_seeded \<and> no_corner_in_empty toy_cv \<and>
   \<not> Mat_empty (last_im toy_seeded) \<and>
   0 < img_width toy_seeded \<and> 0 < img_height toy_seeded \<and>
   real_of_int (img_width toy_seeded) \<noteq> 0 \<and> real_of_int (img_height toy_seeded) \<noteq> 0"
  using C10_frame_dimensions_positive [OF toy_seeded_reachable toy_no_corner_in_empty
      toy_seeded_tracking]
    toy_seeded_reachable toy_no_corner_in_empty toy_seeded_tracking
  by simp

end
